theory Spec2Isabelle
  imports Complex_Main
begin

section \<open>The adaptors of \<^verbatim>\<open>adaptor/basic_adaptor.py\<close>\<close>

text \<open>
  The module wraps six verification strategies behind one operation
  \<^verbatim>\<open>verify(input, label, norm_type, radius)\<close>. This theory embeds the adaptor classes as
  HOL functions. Python floats are modelled as reals (rounding, infinities and NaN are
  not represented), Python exceptions are values of \<open>py_error\<close>, attribute assignments
  are updates of a record that is passed in and returned, and every call into a
  collaborator that is not part of the module (the bound engines, the solver, the model
  transformation, the attack) is a function of an environment record that acts on an
  opaque world state; each such call is also appended to a log, so that which calls a
  run makes, in which order and with which arguments, can be stated and proved.
  The timing and the two \<^verbatim>\<open>print\<close> calls of the initialisation block are left out, and
  the interpreter is taken to run with assertions enabled.
\<close>

subsection \<open>Exceptions and Python built-ins\<close>

datatype py_error =
    AssertionError
  | ZeroDivisionError
  | ValueError
  | IndexError
  | NotImplementedError
  | AttributeError
  | TypeError
  | RuntimeError

definition py_bind :: "py_error + 'a \<Rightarrow> ('a \<Rightarrow> py_error + 'b) \<Rightarrow> py_error + 'b" where
  "py_bind r f = (case r of Inl e \<Rightarrow> Inl e | Inr x \<Rightarrow> f x)"

text \<open>\<^verbatim>\<open>min(xs)\<close> and \<^verbatim>\<open>max(xs)\<close> on a list raise ValueError when the list is empty.\<close>

definition py_min :: "real list \<Rightarrow> py_error + real" where
  "py_min xs = (case xs of [] \<Rightarrow> Inl ValueError | x # rest \<Rightarrow> Inr (fold min rest x))"

definition py_max :: "real list \<Rightarrow> py_error + real" where
  "py_max xs = (case xs of [] \<Rightarrow> Inl ValueError | x # rest \<Rightarrow> Inr (fold max rest x))"

text \<open>Division of Python floats raises ZeroDivisionError on a zero divisor.\<close>

definition py_div :: "real \<Rightarrow> real \<Rightarrow> py_error + real" where
  "py_div a b = (if b = 0 then Inl ZeroDivisionError else Inr (a / b))"

text \<open>
  \<^verbatim>\<open>np.argmax\<close>: the index of the first occurrence of the maximum; ValueError on an
  empty array.
\<close>

fun argmax_from :: "nat \<Rightarrow> real \<Rightarrow> nat \<Rightarrow> real list \<Rightarrow> nat" where
  "argmax_from best bv i [] = best"
| "argmax_from best bv i (x # xs) =
     (if bv < x then argmax_from i x (Suc i) xs else argmax_from best bv (Suc i) xs)"

definition argmax :: "real list \<Rightarrow> py_error + nat" where
  "argmax xs = (case xs of [] \<Rightarrow> Inl ValueError | x # rest \<Rightarrow> Inr (argmax_from 0 x 1 rest))"

text \<open>\<^verbatim>\<open>range(n)\<close> for a Python integer \<open>n\<close>: empty when \<open>n \<le> 0\<close>.\<close>

definition py_range :: "int \<Rightarrow> int list" where
  "py_range n = [0..n - 1]"

subsection \<open>Models, tensors and the normalisation layer\<close>

text \<open>
  \<^verbatim>\<open>NormalizeLayer\<close> (module \<^verbatim>\<open>datasets\<close>) keeps the per-channel means and standard
  deviations twice: as the Python lists \<^verbatim>\<open>orig_means\<close>, \<^verbatim>\<open>orig_sds\<close> and as the tensors
  \<^verbatim>\<open>means\<close>, \<^verbatim>\<open>sds\<close>.
\<close>

record normalize_layer =
  orig_means :: "real list"
  orig_sds :: "real list"
  means :: "real list"
  sds :: "real list"

text \<open>
  A model is an \<^verbatim>\<open>nn.Sequential\<close>, indexed as \<^verbatim>\<open>self.model[0]\<close>, \<^verbatim>\<open>self.model[1]\<close>; it is
  kept as the list of its children. A child is a normalisation layer, a nested
  \<^verbatim>\<open>nn.Sequential\<close>, or any other layer (identified by a number).
\<close>

datatype module = NormalizeLayer normalize_layer | Sequential "module list" | Layer nat

text \<open>An input is a tensor of shape (channels, height, width).\<close>

type_synonym image = "real list list list"

datatype tensor = Tensor3 image | Tensor1 "real list"

text \<open>
  \<^verbatim>\<open>list(input.shape)\<close>. A dimension that cannot be read off the nested lists (below an
  empty dimension) is reported as 0.
\<close>

definition in_shape_of :: "image \<Rightarrow> nat list" where
  "in_shape_of x =
     [length x,
      (case x of [] \<Rightarrow> 0 | c # _ \<Rightarrow> length c),
      (case x of [] \<Rightarrow> 0 | c # _ \<Rightarrow> (case c of [] \<Rightarrow> 0 | r # _ \<Rightarrow> length r))]"

text \<open>\<^verbatim>\<open>input.contiguous().view(-1)\<close>: the elements in row-major order.\<close>

definition view_flat :: "image \<Rightarrow> real list" where
  "view_flat x = concat (concat x)"

text \<open>
  The result of \<^verbatim>\<open>model_transform(m, shape)\<close> is kept symbolically, as the call that
  produced it; the interval-bound adaptor stores a module of the model itself.
\<close>

datatype new_model = Transformed module "nat list" | Untransformed module

subsection \<open>Adaptor objects\<close>

record basic_adaptor =
  dataset :: string
  model :: "module list"
  coef :: real

datatype real_class =
    RealAdaptorBase
  | IBPAdaptor
  | FastLinIBPAdaptor
  | MILPAdaptor
  | PercySDPAdaptor

text \<open>
  The attributes \<^verbatim>\<open>bound\<close> and \<^verbatim>\<open>prebound\<close> hold references (handles of type \<open>'h\<close>) to
  engine objects; the engines' own state lives in the world state. \<^verbatim>\<open>prebound\<close> does not
  exist before \<^verbatim>\<open>prepare_solver\<close> of the MILP and SDP adaptors has run, which is \<open>None\<close>
  here.
\<close>

record 'h real_adaptor = basic_adaptor +
  cls :: real_class
  new_model :: "new_model option"
  in_min :: real
  in_max :: real
  bound :: "'h option"
  prebound :: "'h option"

datatype 'h adaptor =
    CleanAdaptor basic_adaptor
  | PGDAdaptor basic_adaptor
  | RealAdaptor "'h real_adaptor"

subsection \<open>Construction\<close>

text \<open>\<^verbatim>\<open>BasicAdaptor.__init__\<close> (lines 26-35).\<close>

definition BasicAdaptor_init :: "string \<Rightarrow> module list \<Rightarrow> py_error + basic_adaptor" where
  "BasicAdaptor_init ds m =
     (case m of
        [] \<Rightarrow> Inl IndexError
      | NormalizeLayer nl # _ \<Rightarrow>
          py_bind (py_min (orig_sds nl)) (\<lambda>c. Inr \<lparr>dataset = ds, model = m, coef = c\<rparr>)
      | _ # _ \<Rightarrow> Inr \<lparr>dataset = ds, model = m, coef = 1\<rparr>)"

text \<open>The interval computation of \<^verbatim>\<open>RealAdaptorBase.__init__\<close> (lines 108-121).\<close>

definition input_interval :: "module list \<Rightarrow> py_error + real \<times> real" where
  "input_interval m =
     (case m of
        [] \<Rightarrow> Inl IndexError
      | NormalizeLayer nl # _ \<Rightarrow>
          py_bind (py_max (orig_means nl)) (\<lambda>mx.
          py_bind (py_min (orig_means nl)) (\<lambda>mn.
          let lo = 0 - mx; hi = 1 - mn in
          py_bind (if lo \<le> 0
                   then py_bind (py_min (orig_sds nl)) (\<lambda>s. py_div lo s)
                   else py_bind (py_max (orig_sds nl)) (\<lambda>s. py_div lo s)) (\<lambda>lo'.
          py_bind (if hi \<le> 0
                   then py_bind (py_max (orig_sds nl)) (\<lambda>s. py_div hi s)
                   else py_bind (py_min (orig_sds nl)) (\<lambda>s. py_div hi s)) (\<lambda>hi'.
          Inr (lo', hi')))))
      | _ # _ \<Rightarrow> Inr (0, 1))"

text \<open>
  \<^verbatim>\<open>RealAdaptorBase.__init__\<close> (lines 104-123); the subclasses add nothing that the
  claims read (the MILP and SDP constructors also set the solver's global time limit).
\<close>

definition RealAdaptorBase_init ::
  "real_class \<Rightarrow> string \<Rightarrow> module list \<Rightarrow> py_error + 'h real_adaptor" where
  "RealAdaptorBase_init c ds m =
     py_bind (BasicAdaptor_init ds m) (\<lambda>b.
     py_bind (input_interval (model b)) (\<lambda>(lo, hi).
     Inr \<lparr>dataset = dataset b, model = model b, coef = coef b,
          cls = c, new_model = None, in_min = lo, in_max = hi,
          bound = None, prebound = None\<rparr>))"

subsection \<open>Collaborators\<close>

datatype engine_class = FastIntervalBound | IntervalFastLinBound | MILPVerifier | PercySDP

record pgd_params =
  eps :: real
  clip_min :: real
  clip_max :: real
  eps_iter :: real
  nb_iter :: nat
  rand_init :: bool

text \<open>
  The calls that leave the module. \<open>'w\<close> is the state of everything outside the
  adaptor (the engines' bounds, the optimisation problem), \<open>'h\<close> a reference to an engine
  object. \<open>new_engine\<close> stands for the four engine constructors, which take
  \<^verbatim>\<open>(new_model, in_shape, in_min, in_max)\<close> or, for the SDP, \<^verbatim>\<open>(new_model, in_shape)\<close>.
  \<open>predict\<close> is \<^verbatim>\<open>self.model(xs.cuda()).detach().cpu().numpy()[0]\<close> for the one-element batch
  \<open>xs\<close>; \<open>pgd_adv_preds\<close> is the attack of lines 80-91 up to \<^verbatim>\<open>adv_preds[0]\<close>.
  \<open>bound_l\<close>, \<open>bound_u\<close>, \<open>prob_status\<close>, \<open>prob_value\<close> read the attributes
  \<^verbatim>\<open>l\<close>, \<^verbatim>\<open>u\<close>, \<^verbatim>\<open>prob.status\<close>, \<^verbatim>\<open>prob.value\<close> of an engine.
  The collaborators are taken to return; an exception of their own is not modelled.
\<close>

record ('w, 'h) env =
  predict :: "module list \<Rightarrow> image \<Rightarrow> real list"
  get_num_classes :: "string \<Rightarrow> int"
  pgd_adv_preds :: "module list \<Rightarrow> pgd_params \<Rightarrow> image \<Rightarrow> real list"
  new_engine ::
    "'w \<Rightarrow> engine_class \<Rightarrow> new_model option \<Rightarrow> nat list \<Rightarrow> (real \<times> real) option \<Rightarrow> 'h \<times> 'w"
  calculate_bound :: "'w \<Rightarrow> 'h \<Rightarrow> tensor \<Rightarrow> real \<Rightarrow> 'w"
  bound_verify :: "'w \<Rightarrow> 'h \<Rightarrow> int \<Rightarrow> int \<Rightarrow> bool \<times> 'w"
  bound_l :: "'w \<Rightarrow> 'h \<Rightarrow> real list list"
  bound_u :: "'w \<Rightarrow> 'h \<Rightarrow> real list list"
  construct :: "'w \<Rightarrow> 'h \<Rightarrow> real list list \<Rightarrow> real list list \<Rightarrow> tensor \<Rightarrow> real \<Rightarrow> 'w"
  prepare_verify :: "'w \<Rightarrow> 'h \<Rightarrow> int \<Rightarrow> int \<Rightarrow> 'w"
  solve :: "'w \<Rightarrow> 'h \<Rightarrow> 'w"
  run :: "'w \<Rightarrow> 'h \<Rightarrow> real list list \<Rightarrow> real list list \<Rightarrow> int \<Rightarrow> int \<Rightarrow> 'w"
  prob_status :: "'w \<Rightarrow> 'h \<Rightarrow> string"
  prob_value :: "'w \<Rightarrow> 'h \<Rightarrow> real option"

text \<open>
  The log of calls. \<open>BoundVerify\<close> carries the value the call returned; \<open>Solve\<close> and
  \<open>Run\<close> carry the status and value that the adaptor reads from \<^verbatim>\<open>bound.prob\<close> right
  after the call; \<open>New\<close> carries the reference to the engine it built.
\<close>

datatype 'h event =
    ModelTransform module "nat list"
  | New engine_class "new_model option" "nat list" "(real \<times> real) option" 'h
  | CalculateBound 'h tensor real
  | BoundVerify 'h int int bool
  | Construct 'h "real list list" "real list list" tensor real
  | PrepareVerify 'h int int
  | Solve 'h string "real option"
  | Run 'h "real list list" "real list list" int int string "real option"
  | Attack pgd_params

subsection \<open>The weak oracles\<close>

text \<open>\<^verbatim>\<open>CleanAdaptor.verify\<close> (lines 44-48).\<close>

definition CleanAdaptor_verify ::
  "('w, 'h) env \<Rightarrow> basic_adaptor \<Rightarrow> image \<Rightarrow> int \<Rightarrow> string \<Rightarrow> real \<Rightarrow> py_error + bool" where
  "CleanAdaptor_verify env a input label norm_type radius =
     py_bind (argmax (predict env (model a) input)) (\<lambda>clean_pred.
     Inr (int clean_pred = label))"

text \<open>\<^verbatim>\<open>PGDAdaptor.verify\<close> (lines 67-94).\<close>

definition PGDAdaptor_verify ::
  "('w, 'h) env \<Rightarrow> basic_adaptor \<Rightarrow> image \<Rightarrow> int \<Rightarrow> string \<Rightarrow> real \<Rightarrow>
     (py_error + bool) \<times> 'h event list" where
  "PGDAdaptor_verify env a input label norm_type radius =
     (if norm_type \<noteq> ''inf'' then (Inl AssertionError, [])
      else case argmax (predict env (model a) input) of
        Inl e \<Rightarrow> (Inl e, [])
      | Inr clean_pred \<Rightarrow>
          if int clean_pred \<noteq> label then (Inr False, [])
          else if radius = 0 then (Inr True, [])
          else
            let params = \<lparr>eps = radius, clip_min = 0, clip_max = 1,
                          eps_iter = radius / 50, nb_iter = 100, rand_init = False\<rparr>;
                adv_preds = pgd_adv_preds env (model a) params input
            in (py_bind (argmax adv_preds) (\<lambda>adv_pred. Inr (int adv_pred = label)),
                [Attack params]))"

subsection \<open>Bound-propagation adaptors: initialisation and preprocessing\<close>

text \<open>
  The module handed to the engines: \<^verbatim>\<open>self.model[1]\<close> when the model is a normalisation
  layer followed by an \<^verbatim>\<open>nn.Sequential\<close>, the whole model otherwise (the test of lines
  127 and 182; \<^verbatim>\<open>self.model[1]\<close> is only evaluated after the first test succeeded).
\<close>

definition model_body :: "module list \<Rightarrow> py_error + module" where
  "model_body m =
     (case m of
        [] \<Rightarrow> Inl IndexError
      | NormalizeLayer nl # rest \<Rightarrow>
          (case rest of
             [] \<Rightarrow> Inl IndexError
           | Sequential ms # _ \<Rightarrow> Inr (Sequential ms)
           | _ # _ \<Rightarrow> Inr (Sequential m))
      | _ # _ \<Rightarrow> Inr (Sequential m))"

text \<open>\<^verbatim>\<open>RealAdaptorBase.build_new_model\<close> (lines 125-132).\<close>

definition build_new_model ::
  "'h real_adaptor \<Rightarrow> image \<Rightarrow> (py_error + unit) \<times> 'h real_adaptor \<times> 'h event list" where
  "build_new_model a input =
     (case model_body (model a) of
        Inl e \<Rightarrow> (Inl e, a, [])
      | Inr m \<Rightarrow>
          (Inr (), a\<lparr>new_model := Some (Transformed m (in_shape_of input))\<rparr>,
           [ModelTransform m (in_shape_of input)]))"

text \<open>
  \<^verbatim>\<open>prepare_solver\<close>, dispatched on the class: lines 141-142 (base class), 181-188,
  229-230, 242-244 and 294-296.
\<close>

definition prepare_solver ::
  "('w, 'h) env \<Rightarrow> 'h real_adaptor \<Rightarrow> 'w \<Rightarrow> nat list \<Rightarrow>
     (py_error + unit) \<times> 'h real_adaptor \<times> 'w \<times> 'h event list" where
  "prepare_solver env a w in_shape =
     (case cls a of
        RealAdaptorBase \<Rightarrow> (Inl NotImplementedError, a, w, [])
      | IBPAdaptor \<Rightarrow>
          (case model_body (model a) of
             Inl e \<Rightarrow> (Inl e, a, w, [])
           | Inr m \<Rightarrow>
               let a1 = a\<lparr>new_model := Some (Untransformed m)\<rparr>;
                   rng = Some (in_min a1, in_max a1);
                   (h, w1) = new_engine env w FastIntervalBound (new_model a1) in_shape rng
               in (Inr (), a1\<lparr>bound := Some h\<rparr>, w1,
                   [New FastIntervalBound (new_model a1) in_shape rng h]))
      | FastLinIBPAdaptor \<Rightarrow>
          let rng = Some (in_min a, in_max a);
              (h, w1) = new_engine env w IntervalFastLinBound (new_model a) in_shape rng
          in (Inr (), a\<lparr>bound := Some h\<rparr>, w1,
              [New IntervalFastLinBound (new_model a) in_shape rng h])
      | MILPAdaptor \<Rightarrow>
          let rng = Some (in_min a, in_max a);
              (p, w1) = new_engine env w IntervalFastLinBound (new_model a) in_shape rng;
              (h, w2) = new_engine env w1 MILPVerifier (new_model a) in_shape rng
          in (Inr (), a\<lparr>bound := Some h, prebound := Some p\<rparr>, w2,
              [New IntervalFastLinBound (new_model a) in_shape rng p,
               New MILPVerifier (new_model a) in_shape rng h])
      | PercySDPAdaptor \<Rightarrow>
          let rng = Some (in_min a, in_max a);
              (p, w1) = new_engine env w IntervalFastLinBound (new_model a) in_shape rng;
              (h, w2) = new_engine env w1 PercySDP (new_model a) in_shape None
          in (Inr (), a\<lparr>bound := Some h, prebound := Some p\<rparr>, w2,
              [New IntervalFastLinBound (new_model a) in_shape rng p,
               New PercySDP (new_model a) in_shape None h]))"

text \<open>
  The block \<^verbatim>\<open>if self.new_model is None: ...\<close> that opens every \<^verbatim>\<open>verify\<close> (lines
  147-155, 196-203, 252-260, 304-312). \<open>build\<close> says whether the block calls
  \<^verbatim>\<open>build_new_model\<close>: it does everywhere but in \<^verbatim>\<open>IBPAdaptor.verify\<close>.
\<close>

definition lazy_init ::
  "('w, 'h) env \<Rightarrow> bool \<Rightarrow> 'h real_adaptor \<Rightarrow> 'w \<Rightarrow> image \<Rightarrow>
     (py_error + unit) \<times> 'h real_adaptor \<times> 'w \<times> 'h event list" where
  "lazy_init env build a w input =
     (case new_model a of
        Some _ \<Rightarrow> (Inr (), a, w, [])
      | None \<Rightarrow>
          (case (if build then build_new_model a input else (Inr (), a, [])) of
             (Inl e, a1, log1) \<Rightarrow> (Inl e, a1, w, log1)
           | (Inr _, a1, log1) \<Rightarrow>
               (case prepare_solver env a1 w (in_shape_of input) of
                  (r, a2, w2, log2) \<Rightarrow> (r, a2, w2, log1 @ log2))))"

text \<open>
  Broadcasting a per-channel vector against an image of shape (C, H, W): line 138 turns
  the vector of length C' into a tensor of shape (C', H, W); the arithmetic then needs
  C' = C, or one of the two to be 1, and raises otherwise.
\<close>

definition per_channel ::
  "(real \<Rightarrow> real \<Rightarrow> real) \<Rightarrow> image \<Rightarrow> real list \<Rightarrow> py_error + image" where
  "per_channel f x ps =
     (if length ps = length x then Inr (map (\<lambda>(c, p). map (map (\<lambda>v. f v p)) c) (zip x ps))
      else if length ps = 1 then Inr (map (\<lambda>c. map (map (\<lambda>v. f v (hd ps))) c) x)
      else if length x = 1 then Inr (map (\<lambda>p. map (map (\<lambda>v. f v p)) (hd x)) ps)
      else Inl RuntimeError)"

text \<open>
  \<^verbatim>\<open>RealAdaptorBase.input_preprocess\<close> (lines 134-139). Tensor division by zero gives an
  infinity or NaN in the source and 0 here.
\<close>

definition input_preprocess :: "'h real_adaptor \<Rightarrow> image \<Rightarrow> py_error + image" where
  "input_preprocess a input =
     (case model a of
        [] \<Rightarrow> Inl IndexError
      | NormalizeLayer nl # _ \<Rightarrow>
          py_bind (per_channel (\<lambda>v p. v - p) input (means nl)) (\<lambda>d.
          per_channel (\<lambda>v p. v / p) d (sds nl))
      | _ # _ \<Rightarrow> Inr input)"

subsection \<open>The loop over the classes\<close>

text \<open>
  \<^verbatim>\<open>for i in range(...): if i != label: <decide ok>; if not ok: return False\<close> followed by
  \<^verbatim>\<open>return True\<close> (lines 169-174, 216-221, 276-282, 329-334). The four loops differ in
  how one class is decided, which is the parameter \<open>q\<close>.
\<close>

fun pairwise_loop ::
  "('w \<Rightarrow> int \<Rightarrow> (py_error + bool) \<times> 'w \<times> 'h event list) \<Rightarrow> 'w \<Rightarrow> int \<Rightarrow> int list \<Rightarrow>
     (py_error + bool) \<times> 'w \<times> 'h event list" where
  "pairwise_loop q w label [] = (Inr True, w, [])"
| "pairwise_loop q w label (i # rest) =
     (if i \<noteq> label then
        (case q w i of
           (Inl e, w1, evs) \<Rightarrow> (Inl e, w1, evs)
         | (Inr ok, w1, evs) \<Rightarrow>
             if \<not> ok then (Inr False, w1, evs)
             else (case pairwise_loop q w1 label rest of
                     (r, w2, evs2) \<Rightarrow> (r, w2, evs @ evs2)))
      else pairwise_loop q w label rest)"

text \<open>Lines 171, 218: \<^verbatim>\<open>ok = self.bound.verify(label, i)\<close>.\<close>

definition bound_query ::
  "('w, 'h) env \<Rightarrow> 'h \<Rightarrow> int \<Rightarrow> 'w \<Rightarrow> int \<Rightarrow> (py_error + bool) \<times> 'w \<times> 'h event list" where
  "bound_query env b label w i =
     (let (ok, w1) = bound_verify env w b label i
      in (Inr ok, w1, [BoundVerify b label i ok]))"

text \<open>
  Lines 278-281. The comparison \<^verbatim>\<open>value < 0.\<close> is only evaluated when the status is
  \<^verbatim>\<open>'optimal'\<close>, and raises TypeError on a value that is \<^verbatim>\<open>None\<close>.
\<close>

definition milp_query ::
  "('w, 'h) env \<Rightarrow> 'h \<Rightarrow> int \<Rightarrow> 'w \<Rightarrow> int \<Rightarrow> (py_error + bool) \<times> 'w \<times> 'h event list" where
  "milp_query env b label w i =
     (let w1 = prepare_verify env w b label i;
          w2 = solve env w1 b;
          st = prob_status env w2 b;
          v = prob_value env w2 b;
          evs = [PrepareVerify b label i, Solve b st v]
      in if st \<noteq> ''optimal'' then (Inr False, w2, evs)
         else (case v of
                 None \<Rightarrow> (Inl TypeError, w2, evs)
               | Some x \<Rightarrow> (Inr (\<not> x < 0), w2, evs)))"

text \<open>Lines 331-333; \<^verbatim>\<open>self.bound\<close> is first dereferenced here.\<close>

definition sdp_query ::
  "('w, 'h) env \<Rightarrow> 'h option \<Rightarrow> real list list \<Rightarrow> real list list \<Rightarrow> int \<Rightarrow> 'w \<Rightarrow> int \<Rightarrow>
     (py_error + bool) \<times> 'w \<times> 'h event list" where
  "sdp_query env bo bl bu label w i =
     (case bo of
        None \<Rightarrow> (Inl AttributeError, w, [])
      | Some b \<Rightarrow>
          let w1 = run env w b bl bu label i;
              st = prob_status env w1 b;
              v = prob_value env w1 b;
              evs = [Run b bl bu label i st v]
          in if st \<noteq> ''optimal'' then (Inr False, w1, evs)
             else (case v of
                     None \<Rightarrow> (Inl TypeError, w1, evs)
                   | Some x \<Rightarrow> (Inr (\<not> x > 0), w1, evs)))"

text \<open>
  Lines 326-327:
  \<^verbatim>\<open>[np.maximum(xs[i], 0) if i > 0 else xs[i] for i in range(len(xs))]\<close>.
\<close>

definition clamp_prebound :: "real list list \<Rightarrow> real list list" where
  "clamp_prebound xs =
     map (\<lambda>i. if i > 0 then map (\<lambda>v. max v 0) (xs ! i) else xs ! i) [0..<length xs]"

subsection \<open>The bound-propagation \<^verbatim>\<open>verify\<close> methods\<close>

text \<open>
  What follows the preprocessing, per class: lines 166-174 (base class, used by the
  Fast-Lin adaptor), 214-221 (interval bounds: the input is not flattened), 272-282
  (MILP) and 324-334 (SDP). \<open>x\<close> is the preprocessed input.
\<close>

definition base_tail ::
  "('w, 'h) env \<Rightarrow> 'h real_adaptor \<Rightarrow> 'w \<Rightarrow> image \<Rightarrow> real \<Rightarrow> int \<Rightarrow>
     (py_error + bool) \<times> 'w \<times> 'h event list" where
  "base_tail env a w x m_radius label =
     (let t = Tensor1 (view_flat x) in
      case bound a of
        None \<Rightarrow> (Inl AttributeError, w, [])
      | Some b \<Rightarrow>
          let w1 = calculate_bound env w b t m_radius in
          (case pairwise_loop (bound_query env b label) w1 label
                  (py_range (get_num_classes env (dataset a))) of
             (r, w2, evs) \<Rightarrow> (r, w2, CalculateBound b t m_radius # evs)))"

definition ibp_tail ::
  "('w, 'h) env \<Rightarrow> 'h real_adaptor \<Rightarrow> 'w \<Rightarrow> image \<Rightarrow> real \<Rightarrow> int \<Rightarrow>
     (py_error + bool) \<times> 'w \<times> 'h event list" where
  "ibp_tail env a w x m_radius label =
     (let t = Tensor3 x in
      case bound a of
        None \<Rightarrow> (Inl AttributeError, w, [])
      | Some b \<Rightarrow>
          let w1 = calculate_bound env w b t m_radius in
          (case pairwise_loop (bound_query env b label) w1 label
                  (py_range (get_num_classes env (dataset a))) of
             (r, w2, evs) \<Rightarrow> (r, w2, CalculateBound b t m_radius # evs)))"

definition milp_tail ::
  "('w, 'h) env \<Rightarrow> 'h real_adaptor \<Rightarrow> 'w \<Rightarrow> image \<Rightarrow> real \<Rightarrow> int \<Rightarrow>
     (py_error + bool) \<times> 'w \<times> 'h event list" where
  "milp_tail env a w x m_radius label =
     (let t = Tensor1 (view_flat x) in
      case prebound a of
        None \<Rightarrow> (Inl AttributeError, w, [])
      | Some p \<Rightarrow>
          let w1 = calculate_bound env w p t m_radius in
          (case bound a of
             None \<Rightarrow> (Inl AttributeError, w1, [CalculateBound p t m_radius])
           | Some b \<Rightarrow>
               let l = bound_l env w1 p;
                   u = bound_u env w1 p;
                   w2 = construct env w1 b l u t m_radius in
               (case pairwise_loop (milp_query env b label) w2 label
                       (py_range (get_num_classes env (dataset a))) of
                  (r, w3, evs) \<Rightarrow>
                    (r, w3, CalculateBound p t m_radius # Construct b l u t m_radius # evs))))"

definition sdp_tail ::
  "('w, 'h) env \<Rightarrow> 'h real_adaptor \<Rightarrow> 'w \<Rightarrow> image \<Rightarrow> real \<Rightarrow> int \<Rightarrow>
     (py_error + bool) \<times> 'w \<times> 'h event list" where
  "sdp_tail env a w x m_radius label =
     (let t = Tensor1 (view_flat x) in
      case prebound a of
        None \<Rightarrow> (Inl AttributeError, w, [])
      | Some p \<Rightarrow>
          let w1 = calculate_bound env w p t m_radius;
              bl = clamp_prebound (bound_l env w1 p);
              bu = clamp_prebound (bound_u env w1 p) in
          (case pairwise_loop (sdp_query env (bound a) bl bu label) w1 label
                  (py_range (get_num_classes env (dataset a))) of
             (r, w2, evs) \<Rightarrow> (r, w2, CalculateBound p t m_radius # evs)))"

text \<open>
  The part the four methods share word for word: the assertion, the initialisation
  block, the clean prediction, \<^verbatim>\<open>m_radius = radius / self.coef\<close> and
  \<^verbatim>\<open>input = self.input_preprocess(input)\<close> (lines 144-165, 190-213, 246-270, 298-322).
  An exception leaves the attributes as they were when it was raised.
\<close>

definition verify_common ::
  "('w, 'h) env \<Rightarrow> bool \<Rightarrow>
   ('h real_adaptor \<Rightarrow> 'w \<Rightarrow> image \<Rightarrow> real \<Rightarrow> int \<Rightarrow> (py_error + bool) \<times> 'w \<times> 'h event list) \<Rightarrow>
   'h real_adaptor \<Rightarrow> 'w \<Rightarrow> image \<Rightarrow> int \<Rightarrow> string \<Rightarrow> real \<Rightarrow>
     (py_error + bool) \<times> 'h real_adaptor \<times> 'w \<times> 'h event list" where
  "verify_common env build tail a w input label norm_type radius =
     (if norm_type \<noteq> ''inf'' then (Inl AssertionError, a, w, [])
      else case lazy_init env build a w input of
        (Inl e, a1, w1, log1) \<Rightarrow> (Inl e, a1, w1, log1)
      | (Inr _, a1, w1, log1) \<Rightarrow>
          (case argmax (predict env (model a1) input) of
             Inl e \<Rightarrow> (Inl e, a1, w1, log1)
           | Inr clean_pred \<Rightarrow>
               if int clean_pred \<noteq> label then (Inr False, a1, w1, log1)
               else (case py_div radius (coef a1) of
                  Inl e \<Rightarrow> (Inl e, a1, w1, log1)
                | Inr m_radius \<Rightarrow>
                    (case input_preprocess a1 input of
                       Inl e \<Rightarrow> (Inl e, a1, w1, log1)
                     | Inr x \<Rightarrow>
                         (case tail a1 w1 x m_radius label of
                            (r, w2, log2) \<Rightarrow> (r, a1, w2, log1 @ log2))))))"

definition RealAdaptorBase_verify ::
  "('w, 'h) env \<Rightarrow> 'h real_adaptor \<Rightarrow> 'w \<Rightarrow> image \<Rightarrow> int \<Rightarrow> string \<Rightarrow> real \<Rightarrow>
     (py_error + bool) \<times> 'h real_adaptor \<times> 'w \<times> 'h event list" where
  "RealAdaptorBase_verify env = verify_common env True (base_tail env)"

definition IBPAdaptor_verify ::
  "('w, 'h) env \<Rightarrow> 'h real_adaptor \<Rightarrow> 'w \<Rightarrow> image \<Rightarrow> int \<Rightarrow> string \<Rightarrow> real \<Rightarrow>
     (py_error + bool) \<times> 'h real_adaptor \<times> 'w \<times> 'h event list" where
  "IBPAdaptor_verify env = verify_common env False (ibp_tail env)"

definition MILPAdaptor_verify ::
  "('w, 'h) env \<Rightarrow> 'h real_adaptor \<Rightarrow> 'w \<Rightarrow> image \<Rightarrow> int \<Rightarrow> string \<Rightarrow> real \<Rightarrow>
     (py_error + bool) \<times> 'h real_adaptor \<times> 'w \<times> 'h event list" where
  "MILPAdaptor_verify env = verify_common env True (milp_tail env)"

definition PercySDPAdaptor_verify ::
  "('w, 'h) env \<Rightarrow> 'h real_adaptor \<Rightarrow> 'w \<Rightarrow> image \<Rightarrow> int \<Rightarrow> string \<Rightarrow> real \<Rightarrow>
     (py_error + bool) \<times> 'h real_adaptor \<times> 'w \<times> 'h event list" where
  "PercySDPAdaptor_verify env = verify_common env True (sdp_tail env)"

text \<open>
  Method resolution: the Fast-Lin adaptor inherits \<^verbatim>\<open>RealAdaptorBase.verify\<close>, the other
  three subclasses override it.
\<close>

definition real_verify ::
  "('w, 'h) env \<Rightarrow> 'h real_adaptor \<Rightarrow> 'w \<Rightarrow> image \<Rightarrow> int \<Rightarrow> string \<Rightarrow> real \<Rightarrow>
     (py_error + bool) \<times> 'h real_adaptor \<times> 'w \<times> 'h event list" where
  "real_verify env a =
     (case cls a of
        RealAdaptorBase \<Rightarrow> RealAdaptorBase_verify env a
      | FastLinIBPAdaptor \<Rightarrow> RealAdaptorBase_verify env a
      | IBPAdaptor \<Rightarrow> IBPAdaptor_verify env a
      | MILPAdaptor \<Rightarrow> MILPAdaptor_verify env a
      | PercySDPAdaptor \<Rightarrow> PercySDPAdaptor_verify env a)"

text \<open>\<^verbatim>\<open>adaptor.verify(input, label, norm_type, radius)\<close> for an adaptor of any class.\<close>

fun verify ::
  "('w, 'h) env \<Rightarrow> 'h adaptor \<Rightarrow> 'w \<Rightarrow> image \<Rightarrow> int \<Rightarrow> string \<Rightarrow> real \<Rightarrow>
     (py_error + bool) \<times> 'h adaptor \<times> 'w \<times> 'h event list" where
  "verify env (CleanAdaptor a) w input label norm_type radius =
     (CleanAdaptor_verify env a input label norm_type radius, CleanAdaptor a, w, [])"
| "verify env (PGDAdaptor a) w input label norm_type radius =
     (case PGDAdaptor_verify env a input label norm_type radius of
        (r, evs) \<Rightarrow> (r, PGDAdaptor a, w, evs))"
| "verify env (RealAdaptor a) w input label norm_type radius =
     (case real_verify env a w input label norm_type radius of
        (r, a1, w1, evs) \<Rightarrow> (r, RealAdaptor a1, w1, evs))"

subsection \<open>Reading the log\<close>





text \<open>
  Calls made while initialising (the model transformation and the engine constructors),
  as opposed to calls that use an engine or run the attack.
\<close>

fun is_init_call :: "'h event \<Rightarrow> bool" where
  "is_init_call (ModelTransform m sh) = True"
| "is_init_call (New c nm sh rng h) = True"
| "is_init_call _ = False"

fun is_model_transform :: "'h event \<Rightarrow> bool" where
  "is_model_transform (ModelTransform m sh) = True"
| "is_model_transform _ = False"

fun is_new :: "'h event \<Rightarrow> bool" where
  "is_new (New c nm sh rng h) = True"
| "is_new _ = False"

fun is_calculate_bound :: "'h event \<Rightarrow> bool" where
  "is_calculate_bound (CalculateBound h t r) = True"
| "is_calculate_bound _ = False"

fun is_run :: "'h event \<Rightarrow> bool" where
  "is_run (Run h bl bu l i st v) = True"
| "is_run _ = False"

text \<open>The radius and the input tensor handed to an engine.\<close>

fun radius_of :: "'h event \<Rightarrow> real option" where
  "radius_of (CalculateBound h t r) = Some r"
| "radius_of (Construct h l u t r) = Some r"
| "radius_of _ = None"

fun tensor_of :: "'h event \<Rightarrow> tensor option" where
  "tensor_of (CalculateBound h t r) = Some t"
| "tensor_of (Construct h l u t r) = Some t"
| "tensor_of _ = None"

text \<open>Calls of a pairwise query: they neither initialise nor hand over a radius or an input.\<close>

definition plain_query :: "'h event \<Rightarrow> bool" where
  "plain_query e =
     (\<not> is_init_call e \<and> radius_of e = None \<and> tensor_of e = None \<and> \<not> is_calculate_bound e)"

text \<open>The class-specific part of \<^verbatim>\<open>verify\<close> that method resolution selects.\<close>

definition class_tail ::
  "('w, 'h) env \<Rightarrow> real_class \<Rightarrow>
   'h real_adaptor \<Rightarrow> 'w \<Rightarrow> image \<Rightarrow> real \<Rightarrow> int \<Rightarrow> (py_error + bool) \<times> 'w \<times> 'h event list" where
  "class_tail env c =
     (case c of
        IBPAdaptor \<Rightarrow> ibp_tail env
      | MILPAdaptor \<Rightarrow> milp_tail env
      | PercySDPAdaptor \<Rightarrow> sdp_tail env
      | _ \<Rightarrow> base_tail env)"

text \<open>The tensor a class hands to \<^verbatim>\<open>calculate_bound\<close>, given the preprocessed input.\<close>

definition class_tensor :: "real_class \<Rightarrow> image \<Rightarrow> tensor" where
  "class_tensor c x = (if c = IBPAdaptor then Tensor3 x else Tensor1 (view_flat x))"




text \<open>The two bound lists handed to a run of the SDP.\<close>

fun run_bounds :: "'h event \<Rightarrow> (real list list \<times> real list list) option" where
  "run_bounds (Run h bl bu l i st v) = Some (bl, bu)"
| "run_bounds _ = None"

text \<open>The attributes every adaptor has.\<close>

fun basic_of :: "'h adaptor \<Rightarrow> basic_adaptor" where
  "basic_of (CleanAdaptor a) = a"
| "basic_of (PGDAdaptor a) = a"
| "basic_of (RealAdaptor a) = \<lparr>dataset = dataset a, model = model a, coef = coef a\<rparr>"

fun is_clean :: "'h adaptor \<Rightarrow> bool" where
  "is_clean (CleanAdaptor a) = True"
| "is_clean _ = False"

fun is_ready :: "'h adaptor \<Rightarrow> bool" where
  "is_ready (RealAdaptor a) = (new_model a \<noteq> None)"
| "is_ready _ = True"

text \<open>
  The affine map of the normalisation layer, channel by channel:
  \<open>(v - mean) / sd\<close>.
\<close>

definition normalize :: "normalize_layer \<Rightarrow> image \<Rightarrow> image" where
  "normalize nl x =
     map (\<lambda>(c, m, s). map (map (\<lambda>v. (v - m) / s)) c) (zip x (zip (means nl) (sds nl)))"

subsection \<open>A small test double\<close>

text \<open>
  Collaborators for the examples: a classifier that always scores class 1 highest among
  three classes, engines whose pairwise answer fails exactly on class \<open>bad\<close>, and a
  solver whose value is \<open>good_value\<close> on every class but \<open>bad\<close>. The world state is
  the class of the last query; engine references are numbers.
\<close>

definition mock_env :: "int \<Rightarrow> real \<Rightarrow> (int, nat) env" where
  "mock_env bad good_value =
     \<lparr>predict = (\<lambda>m x. [0, 1, 0]),
      get_num_classes = (\<lambda>ds. 3),
      pgd_adv_preds = (\<lambda>m ps x. [0, 1, 0]),
      new_engine = (\<lambda>w c nm sh rng.
         ((case c of FastIntervalBound \<Rightarrow> 0 | IntervalFastLinBound \<Rightarrow> 1
                   | MILPVerifier \<Rightarrow> 2 | PercySDP \<Rightarrow> 3), w)),
      calculate_bound = (\<lambda>w h t r. w),
      bound_verify = (\<lambda>w h l i. (i \<noteq> bad, i)),
      bound_l = (\<lambda>w h. [[-1, 2], [-3, 4]]),
      bound_u = (\<lambda>w h. [[1, 2], [-1, 5]]),
      construct = (\<lambda>w h l u t r. w),
      prepare_verify = (\<lambda>w h l i. i),
      solve = (\<lambda>w h. w),
      run = (\<lambda>w h bl bu l i. i),
      prob_status = (\<lambda>w h. ''optimal''),
      prob_value = (\<lambda>w h. Some (if w = bad then - good_value else good_value))\<rparr>"

definition demo_layer :: normalize_layer where
  "demo_layer = \<lparr>orig_means = [1/2], orig_sds = [1/4], means = [1/2], sds = [1/4]\<rparr>"

definition demo_model :: "module list" where
  "demo_model = [NormalizeLayer demo_layer, Sequential [Layer 0]]"

definition demo_input :: image where
  "demo_input = [[[1, 0]]]"

definition demo_basic :: basic_adaptor where
  "demo_basic = \<lparr>dataset = ''mnist'', model = demo_model, coef = 1/4\<rparr>"

definition demo_real :: "real_class \<Rightarrow> nat real_adaptor" where
  "demo_real c =
     \<lparr>dataset = ''mnist'', model = demo_model, coef = 1/4,
      cls = c, new_model = None, in_min = -2, in_max = 2,
      bound = None, prebound = None\<rparr>"

section \<open>Properties\<close>

subsection \<open>Construction and initialisation\<close>




lemma py_div_Inr: "py_div a b = Inr c \<Longrightarrow> b \<noteq> 0 \<and> c = a / b"
  by (auto simp: py_div_def split: if_splits)





lemma build_new_model_fields:
  "build_new_model a input = (u, a1, lg) \<Longrightarrow>
     dataset a1 = dataset a \<and> model a1 = model a \<and> coef a1 = coef a \<and> cls a1 = cls a \<and>
     in_min a1 = in_min a \<and> in_max a1 = in_max a \<and> bound a1 = bound a \<and> prebound a1 = prebound a \<and>
     (\<forall>e\<in>set lg. is_init_call e)"
  by (auto simp: build_new_model_def split: sum.splits)

lemma prepare_solver_fields:
  "prepare_solver env a w sh = (u, a1, w1, lg) \<Longrightarrow>
     dataset a1 = dataset a \<and> model a1 = model a \<and> coef a1 = coef a \<and> cls a1 = cls a \<and>
     in_min a1 = in_min a \<and> in_max a1 = in_max a \<and> (\<forall>e\<in>set lg. is_init_call e)"
  by (auto simp: prepare_solver_def Let_def split: real_class.splits sum.splits prod.splits)

lemma lazy_init_fields:
  "lazy_init env build a w input = (u, a1, w1, lg) \<Longrightarrow>
     dataset a1 = dataset a \<and> model a1 = model a \<and> coef a1 = coef a \<and> cls a1 = cls a \<and>
     in_min a1 = in_min a \<and> in_max a1 = in_max a \<and> (\<forall>e\<in>set lg. is_init_call e)"
  by (auto simp: lazy_init_def split: option.splits sum.splits prod.splits if_splits
      dest!: build_new_model_fields prepare_solver_fields)

lemma lazy_init_ready:
  "new_model a \<noteq> None \<Longrightarrow> lazy_init env build a w input = (Inr (), a, w, [])"
  by (auto simp: lazy_init_def)

subsection \<open>The log of the loop and the shared part of \<^verbatim>\<open>verify\<close>\<close>

lemma loop_log_pred:
  assumes q: "\<And>w i r w1 evs. q w i = (r, w1, evs) \<Longrightarrow> \<forall>e\<in>set evs. P e"
  shows "pairwise_loop q w label cs = (r, w', lg) \<Longrightarrow> \<forall>e\<in>set lg. P e"
proof (induction cs arbitrary: w r w' lg)
  case Nil
  then show ?case by simp
next
  case (Cons i rest)
  show ?case
  proof (cases "i = label")
    case True
    with Cons show ?thesis by simp
  next
    case False
    obtain r1 w1 evs where qi: "q w i = (r1, w1, evs)" by (cases "q w i") auto
    have evs: "\<forall>e\<in>set evs. P e" using q [OF qi] .
    show ?thesis
    proof (cases r1)
      case (Inl e)
      with Cons.prems False qi evs show ?thesis by simp
    next
      case (Inr ok)
      show ?thesis
      proof (cases ok)
        case False
        with Cons.prems \<open>i \<noteq> label\<close> qi Inr evs show ?thesis by simp
      next
        case True
        obtain r2 w2 evs2 where rec: "pairwise_loop q w1 label rest = (r2, w2, evs2)"
          by (cases "pairwise_loop q w1 label rest") auto
        from Cons.IH [OF rec] have "\<forall>e\<in>set evs2. P e" .
        moreover from Cons.prems \<open>i \<noteq> label\<close> qi Inr True rec have "lg = evs @ evs2" by simp
        ultimately show ?thesis using evs by auto
      qed
    qed
  qed
qed

lemma bound_query_plain: "bound_query env b label w i = (r, w1, evs) \<Longrightarrow> \<forall>e\<in>set evs. plain_query e"
  by (auto simp: bound_query_def plain_query_def split: prod.splits)

lemma milp_query_plain: "milp_query env b label w i = (r, w1, evs) \<Longrightarrow> \<forall>e\<in>set evs. plain_query e"
  by (auto simp: milp_query_def plain_query_def Let_def split: prod.splits if_splits option.splits)

lemma sdp_query_plain: "sdp_query env bo bl bu label w i = (r, w1, evs) \<Longrightarrow> \<forall>e\<in>set evs. plain_query e"
  by (auto simp: sdp_query_def plain_query_def Let_def split: prod.splits if_splits option.splits)

lemma real_verify_unfold:
  "real_verify env a = verify_common env (cls a \<noteq> IBPAdaptor) (class_tail env (cls a)) a"
  by (cases "cls a")
     (simp_all add: real_verify_def class_tail_def RealAdaptorBase_verify_def IBPAdaptor_verify_def
        MILPAdaptor_verify_def PercySDPAdaptor_verify_def)

lemma verify_common_not_inf:
  "nt \<noteq> ''inf'' \<Longrightarrow> verify_common env build tail a w input label nt radius = (Inl AssertionError, a, w, [])"
  by (simp add: verify_common_def)

lemma verify_common_cases [consumes 1, case_names init_err argmax_err wrong div_err pre_err tail]:
  assumes "verify_common env build tail a w input label ''inf'' radius = (r, a', w', lg)"
  obtains
    e where "lazy_init env build a w input = (Inl e, a', w', lg)" "r = Inl e"
  | u e where "lazy_init env build a w input = (Inr u, a', w', lg)"
      "argmax (predict env (model a') input) = Inl e" "r = Inl e"
  | u p where "lazy_init env build a w input = (Inr u, a', w', lg)"
      "argmax (predict env (model a') input) = Inr p" "int p \<noteq> label" "r = Inr False"
  | u p e where "lazy_init env build a w input = (Inr u, a', w', lg)"
      "argmax (predict env (model a') input) = Inr p" "int p = label"
      "py_div radius (coef a') = Inl e" "r = Inl e"
  | u p mr e where "lazy_init env build a w input = (Inr u, a', w', lg)"
      "argmax (predict env (model a') input) = Inr p" "int p = label"
      "py_div radius (coef a') = Inr mr" "input_preprocess a' input = Inl e" "r = Inl e"
  | u p mr x w1 lg1 lg2 where "lazy_init env build a w input = (Inr u, a', w1, lg1)"
      "argmax (predict env (model a') input) = Inr p" "int p = label"
      "py_div radius (coef a') = Inr mr" "input_preprocess a' input = Inr x"
      "tail a' w1 x mr label = (r, w', lg2)" "lg = lg1 @ lg2"
  using assms unfolding verify_common_def
  by (auto split: prod.splits sum.splits if_splits)

subsection \<open>What the engines are handed\<close>

lemma bound_loop_plain:
  assumes "pairwise_loop (bound_query env b label) w label cs = (r, w', lg)"
  shows "\<forall>e\<in>set lg. plain_query e"
  by (rule loop_log_pred [OF _ assms]) (erule bound_query_plain)

lemma milp_loop_plain:
  assumes "pairwise_loop (milp_query env b label) w label cs = (r, w', lg)"
  shows "\<forall>e\<in>set lg. plain_query e"
  by (rule loop_log_pred [OF _ assms]) (erule milp_query_plain)

lemma sdp_loop_plain:
  assumes "pairwise_loop (sdp_query env bo bl bu label) w label cs = (r, w', lg)"
  shows "\<forall>e\<in>set lg. plain_query e"
  by (rule loop_log_pred [OF _ assms]) (erule sdp_query_plain)

lemmas class_query_plain = bound_loop_plain milp_loop_plain sdp_loop_plain

lemma class_tail_log:
  assumes "class_tail env c a w x mr label = (r, w', lg)"
  shows "\<forall>e\<in>set lg. \<not> is_init_call e \<and> (\<forall>m. radius_of e = Some m \<longrightarrow> m = mr) \<and>
           (\<forall>t. tensor_of e = Some t \<longrightarrow> t = class_tensor c x)"
proof (cases c)
  case IBPAdaptor
  with assms show ?thesis
    by (auto simp: class_tail_def class_tensor_def ibp_tail_def Let_def plain_query_def
        split: option.splits prod.splits dest!: class_query_plain)
next
  case MILPAdaptor
  with assms show ?thesis
    by (auto simp: class_tail_def class_tensor_def milp_tail_def Let_def plain_query_def
        split: option.splits prod.splits dest!: class_query_plain)
next
  case PercySDPAdaptor
  with assms show ?thesis
    by (auto simp: class_tail_def class_tensor_def sdp_tail_def Let_def plain_query_def
        split: option.splits prod.splits dest!: class_query_plain)
next
  case RealAdaptorBase
  with assms show ?thesis
    by (auto simp: class_tail_def class_tensor_def base_tail_def Let_def plain_query_def
        split: option.splits prod.splits dest!: class_query_plain)
next
  case FastLinIBPAdaptor
  with assms show ?thesis
    by (auto simp: class_tail_def class_tensor_def base_tail_def Let_def plain_query_def
        split: option.splits prod.splits dest!: class_query_plain)
qed

lemma filter_plain: "\<forall>e\<in>set lg. plain_query e \<Longrightarrow> filter is_calculate_bound lg = []"
  by (induction lg) (auto simp: plain_query_def)

lemma class_tail_calc:
  assumes "class_tail env c a w x mr label = (Inr v, w', lg)"
  shows "\<exists>h. filter is_calculate_bound lg = [CalculateBound h (class_tensor c x) mr]"
proof (cases c)
  case IBPAdaptor
  with assms show ?thesis
    by (auto simp: class_tail_def class_tensor_def ibp_tail_def Let_def
        split: option.splits prod.splits dest!: class_query_plain filter_plain)
next
  case MILPAdaptor
  with assms show ?thesis
    by (auto simp: class_tail_def class_tensor_def milp_tail_def Let_def
        split: option.splits prod.splits dest!: class_query_plain filter_plain)
next
  case PercySDPAdaptor
  with assms show ?thesis
    by (auto simp: class_tail_def class_tensor_def sdp_tail_def Let_def
        split: option.splits prod.splits dest!: class_query_plain filter_plain)
next
  case RealAdaptorBase
  with assms show ?thesis
    by (auto simp: class_tail_def class_tensor_def base_tail_def Let_def
        split: option.splits prod.splits dest!: class_query_plain filter_plain)
next
  case FastLinIBPAdaptor
  with assms show ?thesis
    by (auto simp: class_tail_def class_tensor_def base_tail_def Let_def
        split: option.splits prod.splits dest!: class_query_plain filter_plain)
qed

lemma init_log_plain:
  "\<forall>e\<in>set lg. is_init_call e \<Longrightarrow>
     filter is_calculate_bound lg = [] \<and> (\<forall>e\<in>set lg. radius_of e = None \<and> tensor_of e = None)"
proof (induction lg)
  case Nil
  then show ?case by simp
next
  case (Cons e lg)
  then show ?case by (cases e) auto
qed



lemma real_verify_calc:
  assumes "real_verify env a w input label ''inf'' radius = (Inr v, a', w', lg)"
    and "argmax (predict env (model a) input) = Inr p" and "int p = label"
  shows "\<exists>h x. input_preprocess a input = Inr x \<and> coef a \<noteq> 0 \<and>
           filter is_calculate_bound lg = [CalculateBound h (class_tensor (cls a) x) (radius / coef a)]"
proof -
  from assms have "verify_common env (cls a \<noteq> IBPAdaptor) (class_tail env (cls a)) a w input label
     ''inf'' radius = (Inr v, a', w', lg)" by (simp add: real_verify_unfold)
  then show ?thesis
  proof (cases rule: verify_common_cases)
    case (tail u p' m x w1 lg1 lg2)
    from lazy_init_fields [OF tail(1)] have c: "coef a' = coef a" "model a' = model a"
      and i: "\<forall>e\<in>set lg1. is_init_call e" by auto
    have pre: "input_preprocess a input = Inr x" using tail(5) c(2) by (simp add: input_preprocess_def)
    from class_tail_calc [OF tail(6)] obtain h where
      "filter is_calculate_bound lg2 = [CalculateBound h (class_tensor (cls a) x) m]" by blast
    with init_log_plain [OF i] tail(7) py_div_Inr [OF tail(4)] c pre show ?thesis by auto
  next
    case (wrong u p')
    with assms(2,3) lazy_init_fields [OF wrong(1)] show ?thesis by auto
  qed auto
qed

subsection \<open>Runs on the test double; coefficient and input interval\<close>

lemmas run_defs =
  real_verify_def RealAdaptorBase_verify_def IBPAdaptor_verify_def MILPAdaptor_verify_def
  PercySDPAdaptor_verify_def verify_common_def lazy_init_def build_new_model_def
  prepare_solver_def model_body_def argmax_def py_div_def py_min_def py_max_def input_preprocess_def
  per_channel_def py_bind_def base_tail_def ibp_tail_def milp_tail_def sdp_tail_def
  bound_query_def milp_query_def sdp_query_def clamp_prebound_def py_range_def
  in_shape_of_def view_flat_def CleanAdaptor_verify_def PGDAdaptor_verify_def
  BasicAdaptor_init_def RealAdaptorBase_init_def input_interval_def

lemmas demo_defs =
  mock_env_def demo_real_def demo_model_def demo_input_def demo_layer_def demo_basic_def

lemma upto_0_2: "[0..2::int] = [0, 1, 2]"
  by (simp add: upto.simps)



lemma demo_fastlin_ok:
  "real_verify (mock_env 5 1) (demo_real FastLinIBPAdaptor) 0 demo_input 1 ''inf'' (1/10) =
    (Inr True,
     (demo_real FastLinIBPAdaptor)
       \<lparr>new_model := Some (Transformed (Sequential [Layer 0]) [1, 1, 2]), bound := Some 1\<rparr>,
     2,
     [ModelTransform (Sequential [Layer 0]) [1, 1, 2],
      New IntervalFastLinBound (Some (Transformed (Sequential [Layer 0]) [1, 1, 2])) [1, 1, 2]
        (Some (- 2, 2)) 1,
      CalculateBound 1 (Tensor1 [2, - 2]) (2 / 5),
      BoundVerify 1 1 0 True, BoundVerify 1 1 2 True])"
  by (simp add: run_defs demo_defs Let_def upto_0_2)



lemma demo_predict: "argmax (predict (mock_env bad gv) (model (demo_real c)) demo_input) = Inr 1"
  by (simp add: mock_env_def argmax_def)




subsection \<open>Norm type and clean prediction\<close>

lemma model_body_err: "model_body m = Inl e \<Longrightarrow> e = IndexError"
  by (auto simp: model_body_def split: list.splits module.splits)

lemma lazy_init_err:
  "lazy_init env build a w input = (Inl e, a1, w1, lg) \<Longrightarrow>
     new_model a = None \<and> (e = IndexError \<or> e = NotImplementedError)"
  by (auto simp: lazy_init_def build_new_model_def prepare_solver_def Let_def
      split: option.splits sum.splits prod.splits if_splits real_class.splits
      dest: model_body_err)

text \<open>
  C3, as amended. Every adaptor but the clean one raises AssertionError on a norm type
  other than \<^verbatim>\<open>'inf'\<close>, before it does anything else; the clean adaptor never looks at
  the norm type.
\<close>

theorem norm_type_assertion:
  "(nt \<noteq> ''inf'' \<and> \<not> is_clean ad \<longrightarrow>
      verify env ad w input label nt radius = (Inl AssertionError, ad, w, [])) \<and>
   verify env (CleanAdaptor b) w input label nt radius =
     verify env (CleanAdaptor b) w input label ''inf'' radius"
proof (rule conjI; (rule impI)?)
  assume h: "nt \<noteq> ''inf'' \<and> \<not> is_clean ad"
  show "verify env ad w input label nt radius = (Inl AssertionError, ad, w, [])"
  proof (cases ad)
    case (CleanAdaptor b)
    with h show ?thesis by simp
  next
    case (PGDAdaptor b)
    with h show ?thesis by (simp add: PGDAdaptor_verify_def)
  next
    case (RealAdaptor a)
    with h show ?thesis by (simp add: real_verify_unfold verify_common_not_inf)
  qed
next
  show "verify env (CleanAdaptor b) w input label nt radius =
     verify env (CleanAdaptor b) w input label ''inf'' radius"
    by (simp add: CleanAdaptor_verify_def)
qed

theorem norm_type_assertion_witness:
  "verify (mock_env 5 1) (PGDAdaptor demo_basic) 0 demo_input 1 ''l2'' (1/10) =
     (Inl AssertionError, PGDAdaptor demo_basic, 0, [])"
  using norm_type_assertion [of "''l2''" "PGDAdaptor demo_basic" "mock_env 5 1" 0 demo_input 1 "1/10"]
  by simp

text \<open>
  C3 as stated fails: the clean adaptor accepts the norm type \<^verbatim>\<open>'l2'\<close> and returns a
  verdict.
\<close>

theorem clean_accepts_any_norm:
  "fst (verify (mock_env 5 1) (CleanAdaptor demo_basic) 0 demo_input 1 ''l2'' (1/10)) = Inr True"
  by (simp add: CleanAdaptor_verify_def mock_env_def argmax_def py_bind_def)

text \<open>
  C4. When the clean prediction differs from the label, \<^verbatim>\<open>verify\<close> returns False; the only
  calls it has made by then are those of the initialisation block, which runs first on
  an adaptor that is not yet initialised (and whose exception, if it raises, is the
  result instead). No \<^verbatim>\<open>calculate_bound\<close>, pairwise query, solver run or attack happens.
\<close>

theorem clean_mismatch_returns_false:
  assumes "verify env ad w input label ''inf'' radius = (r, ad', w', lg)"
    and "argmax (predict env (model (basic_of ad)) input) = Inr p"
    and "int p \<noteq> label"
  shows "(\<forall>e\<in>set lg. is_init_call e) \<and>
         (is_ready ad \<longrightarrow> r = Inr False \<and> lg = [] \<and> ad' = ad \<and> w' = w) \<and>
         (r = Inr False \<or> (\<not> is_ready ad \<and> (r = Inl IndexError \<or> r = Inl NotImplementedError)))"
proof (cases ad)
  case (CleanAdaptor b)
  with assms show ?thesis by (auto simp: CleanAdaptor_verify_def py_bind_def)
next
  case (PGDAdaptor b)
  with assms show ?thesis by (auto simp: PGDAdaptor_verify_def)
next
  case (RealAdaptor a)
  with assms(1) obtain a1 where rv: "real_verify env a w input label ''inf'' radius = (r, a1, w', lg)"
    and ad': "ad' = RealAdaptor a1" by (auto split: prod.splits)
  from rv have vc: "verify_common env (cls a \<noteq> IBPAdaptor) (class_tail env (cls a)) a w input label
     ''inf'' radius = (r, a1, w', lg)" by (simp add: real_verify_unfold)
  from assms(2) RealAdaptor have am: "argmax (predict env (model a) input) = Inr p" by simp
  from vc show ?thesis
  proof (cases rule: verify_common_cases)
    case (init_err e)
    with lazy_init_err [OF init_err(1)] lazy_init_fields [OF init_err(1)] RealAdaptor
    show ?thesis by auto
  next
    case (wrong u p')
    from lazy_init_fields [OF wrong(1)] have "\<forall>e\<in>set lg. is_init_call e" by simp
    moreover have "is_ready ad \<longrightarrow> lg = [] \<and> ad' = ad \<and> w' = w"
      using wrong(1) RealAdaptor ad' by (auto simp: lazy_init_ready)
    ultimately show ?thesis using wrong(4) by simp
  next
    case (argmax_err u e)
    with am lazy_init_fields [OF argmax_err(1)] show ?thesis by simp
  next
    case (div_err u p' e)
    with am assms(3) lazy_init_fields [OF div_err(1)] show ?thesis by simp
  next
    case (pre_err u p' mr e)
    with am assms(3) lazy_init_fields [OF pre_err(1)] show ?thesis by simp
  next
    case (tail u p' mr x w1 lg1 lg2)
    with am assms(3) lazy_init_fields [OF tail(1)] show ?thesis by simp
  qed
qed

theorem clean_mismatch_returns_false_witness:
  "fst (verify (mock_env 5 1) (RealAdaptor (demo_real MILPAdaptor)) 0 demo_input 2 ''inf'' (1/10)) =
     Inr False \<and>
   list_all is_init_call
     (snd (snd (snd (verify (mock_env 5 1) (RealAdaptor (demo_real MILPAdaptor)) 0 demo_input 2
        ''inf'' (1/10)))))"
proof -
  obtain r ad' w' lg where
    v: "verify (mock_env 5 1) (RealAdaptor (demo_real MILPAdaptor)) 0 demo_input 2 ''inf'' (1/10) =
          (r, ad', w', lg)"
    by (cases "verify (mock_env 5 1) (RealAdaptor (demo_real MILPAdaptor)) 0 demo_input 2 ''inf'' (1/10)")
       auto
  have p: "argmax (predict (mock_env 5 1) (model (basic_of (RealAdaptor (demo_real MILPAdaptor))))
             demo_input) = Inr 1"
    by (simp add: mock_env_def argmax_def)
  have nr: "\<not> (r = Inl IndexError \<or> r = Inl NotImplementedError)"
    using v by (auto simp: run_defs demo_defs Let_def)
  from clean_mismatch_returns_false [OF v p] nr v show ?thesis
    by (simp add: list_all_iff)
qed

subsection \<open>Radius zero\<close>






subsection \<open>The verdict of the loop over the classes\<close>


lemma map_filter_none: "\<forall>e\<in>set xs. f e = None \<Longrightarrow> List.map_filter f xs = []"
  by (induction xs) (auto simp: List.map_filter_simps)















subsection \<open>Solver sign conventions\<close>













lemma demo_sdp_ok:
  "real_verify (mock_env 5 (- 1)) (demo_real PercySDPAdaptor) 0 demo_input 1 ''inf'' (1/10) =
    (Inr True,
     (demo_real PercySDPAdaptor)
       \<lparr>new_model := Some (Transformed (Sequential [Layer 0]) [1, 1, 2]),
        bound := Some 3, prebound := Some 1\<rparr>,
     2,
     [ModelTransform (Sequential [Layer 0]) [1, 1, 2],
      New IntervalFastLinBound (Some (Transformed (Sequential [Layer 0]) [1, 1, 2])) [1, 1, 2]
        (Some (- 2, 2)) 1,
      New PercySDP (Some (Transformed (Sequential [Layer 0]) [1, 1, 2])) [1, 1, 2] None 3,
      CalculateBound 1 (Tensor1 [2, - 2]) (2 / 5),
      Run 3 [[- 1, 2], [0, 4]] [[1, 2], [0, 5]] 1 0 ''optimal'' (Some (- 1)),
      Run 3 [[- 1, 2], [0, 4]] [[1, 2], [0, 5]] 1 2 ''optimal'' (Some (- 1))])"
  by (simp add: run_defs demo_defs Let_def upto_0_2 upt_rec)


subsection \<open>The input of \<^verbatim>\<open>calculate_bound\<close>\<close>

lemma per_channel_same:
  "length ps = length x \<Longrightarrow>
     per_channel f x ps = Inr (map (\<lambda>(c, p). map (map (\<lambda>v. f v p)) c) (zip x ps))"
  by (simp add: per_channel_def)

lemma normalize_zip:
  "length x = length ms \<Longrightarrow> length ms = length ss \<Longrightarrow>
     map (\<lambda>(c, p). map (map (\<lambda>v. v / p)) c)
       (zip (map (\<lambda>(c, p). map (map (\<lambda>v. v - p)) c) (zip x ms)) ss) =
     map (\<lambda>(c, m, s). map (map (\<lambda>v. (v - m) / s)) c) (zip x (zip ms ss))"
proof (induction x ms ss rule: list_induct3)
  case Nil
  then show ?case by simp
next
  case (Cons c x m ms s ss)
  then show ?case by simp
qed

lemma input_preprocess_normalize:
  assumes "model a = NormalizeLayer nl # rest"
    and "length (means nl) = length input" and "length (sds nl) = length input"
  shows "input_preprocess a input = Inr (normalize nl input)"
  using assms normalize_zip [of input "means nl" "sds nl"]
  by (simp add: input_preprocess_def per_channel_same py_bind_def normalize_def)

lemma input_preprocess_plain:
  "model a \<noteq> [] \<Longrightarrow> \<forall>nl rest. model a \<noteq> NormalizeLayer nl # rest \<Longrightarrow>
     input_preprocess a input = Inr input"
  by (auto simp: input_preprocess_def split: list.splits module.splits)

lemma real_verify_tensor:
  assumes "real_verify env a w input label nt radius = (r, a', w', lg)"
    and "e \<in> set lg" and "tensor_of e = Some t"
  shows "\<exists>x. input_preprocess a input = Inr x \<and> t = class_tensor (cls a) x"
proof (cases "nt = ''inf''")
  case False
  with assms show ?thesis by (simp add: real_verify_unfold verify_common_not_inf)
next
  case True
  with assms have "verify_common env (cls a \<noteq> IBPAdaptor) (class_tail env (cls a)) a w input label
     ''inf'' radius = (r, a', w', lg)" by (simp add: real_verify_unfold)
  then show ?thesis
  proof (cases rule: verify_common_cases)
    case (tail u p m x w1 lg1 lg2)
    from lazy_init_fields [OF tail(1)] have c: "model a' = model a"
      and i: "\<forall>e\<in>set lg1. is_init_call e" by auto
    have pre: "input_preprocess a input = Inr x" using tail(5) c by (simp add: input_preprocess_def)
    from init_log_plain [OF i] assms(2,3) tail(7) have "e \<in> set lg2" by auto
    with class_tail_log [OF tail(6)] assms(3) have "t = class_tensor (cls a) x" by auto
    with pre show ?thesis by simp
  qed (use assms(2,3) in \<open>auto dest!: lazy_init_fields init_log_plain\<close>)
qed

text \<open>
  C7, as amended. Every input tensor that a bound-propagation \<^verbatim>\<open>verify\<close> hands to an engine
  is the result of \<^verbatim>\<open>input_preprocess\<close> on the raw input: flattened to one dimension for
  every class but the interval-bound adaptor, which hands it over in its shape
  (channels, height, width). \<^verbatim>\<open>input_preprocess\<close> applies the affine map of a leading
  normalisation layer, channel by channel, and is the identity without one. A call that
  gets past the clean prediction and returns makes exactly one \<^verbatim>\<open>calculate_bound\<close> call.
\<close>

theorem calculate_bound_input:
  fixes env :: "('w, 'h) env"
  shows
   "(real_verify env a w input label nt radius = (r, a', w', lg) \<longrightarrow>
       (\<forall>e\<in>set lg. \<forall>t. tensor_of e = Some t \<longrightarrow>
          (\<exists>x. input_preprocess a input = Inr x \<and>
               (cls a \<noteq> IBPAdaptor \<longrightarrow> t = Tensor1 (view_flat x)) \<and>
               (cls a = IBPAdaptor \<longrightarrow> t = Tensor3 x)))) \<and>
    (real_verify env a w input label ''inf'' radius = (Inr v, a', w', lg) \<and>
     argmax (predict env (model a) input) = Inr p \<and> int p = label \<longrightarrow>
       (\<exists>h x. input_preprocess a input = Inr x \<and>
          filter is_calculate_bound lg =
            [CalculateBound h (if cls a = IBPAdaptor then Tensor3 x else Tensor1 (view_flat x))
               (radius / coef a)])) \<and>
    (model a = NormalizeLayer nl # rest \<and> length (means nl) = length input \<and>
     length (sds nl) = length input \<longrightarrow>
       input_preprocess a input = Inr (normalize nl input)) \<and>
    (model a \<noteq> [] \<and> (\<forall>nl rest. model a \<noteq> NormalizeLayer nl # rest) \<longrightarrow>
       input_preprocess a input = Inr input)"
proof (intro conjI impI ballI allI)
  fix e t
  assume "real_verify env a w input label nt radius = (r, a', w', lg)" "e \<in> set lg"
    "tensor_of e = Some t"
  from real_verify_tensor [OF this]
  show "\<exists>x. input_preprocess a input = Inr x \<and>
               (cls a \<noteq> IBPAdaptor \<longrightarrow> t = Tensor1 (view_flat x)) \<and>
               (cls a = IBPAdaptor \<longrightarrow> t = Tensor3 x)"
    by (auto simp: class_tensor_def)
next
  assume "real_verify env a w input label ''inf'' radius = (Inr v, a', w', lg) \<and>
     argmax (predict env (model a) input) = Inr p \<and> int p = label"
  then show "\<exists>h x. input_preprocess a input = Inr x \<and>
          filter is_calculate_bound lg =
            [CalculateBound h (if cls a = IBPAdaptor then Tensor3 x else Tensor1 (view_flat x))
               (radius / coef a)]"
    using real_verify_calc [of env a w input label radius v a' w' lg p]
    unfolding class_tensor_def by blast
next
  assume "model a = NormalizeLayer nl # rest \<and> length (means nl) = length input \<and>
     length (sds nl) = length input"
  then show "input_preprocess a input = Inr (normalize nl input)"
    by (simp add: input_preprocess_normalize)
next
  assume "model a \<noteq> [] \<and> (\<forall>nl rest. model a \<noteq> NormalizeLayer nl # rest)"
  then show "input_preprocess a input = Inr input"
    by (simp add: input_preprocess_plain)
qed

lemma demo_preprocess: "input_preprocess (demo_real c) demo_input = Inr [[[2, - 2]]]"
  by (simp add: run_defs demo_defs)

theorem calculate_bound_input_witness:
  "normalize demo_layer demo_input = [[[2, - 2]]] \<and>
   (\<exists>h. filter is_calculate_bound
      (snd (snd (snd (real_verify (mock_env 5 1) (demo_real FastLinIBPAdaptor) 0 demo_input 1 ''inf''
         (1/10))))) = [CalculateBound h (Tensor1 [2, - 2]) ((1/10) / (1/4))])"
  using calculate_bound_input [of "mock_env 5 1" "demo_real FastLinIBPAdaptor" 0 demo_input 1
      "''inf''" "1/10" "Inr True" _ _ _ True 1 demo_layer "[Sequential [Layer 0]]"]
    demo_fastlin_ok demo_predict [of 5 1 FastLinIBPAdaptor] demo_preprocess [of FastLinIBPAdaptor]
  by (simp add: demo_real_def demo_model_def demo_layer_def demo_input_def view_flat_def)

text \<open>
  C7 as stated fails for the interval-bound adaptor: \<^verbatim>\<open>calculate_bound\<close> receives the
  preprocessed input as a three-dimensional tensor, not flattened.
\<close>

theorem ibp_input_not_flattened:
  "filter is_calculate_bound
     (snd (snd (snd (real_verify (mock_env 5 1) (demo_real IBPAdaptor) 0 demo_input 1 ''inf''
        (1/10))))) = [CalculateBound 0 (Tensor3 [[[2, - 2]]]) (2 / 5)]"
  by (simp add: run_defs demo_defs Let_def upto_0_2)

subsection \<open>Lazy initialisation\<close>

lemma model_body_transform_counts:
  "build_new_model a input = (Inr u, a1, lg) \<Longrightarrow>
     new_model a1 \<noteq> None \<and> length (filter is_model_transform lg) = 1 \<and>
     filter is_new lg = [] \<and> cls a1 = cls a \<and>
     a1 = a\<lparr>new_model := new_model a1\<rparr>"
  by (auto simp: build_new_model_def split: sum.splits)

lemma prepare_solver_counts:
  "prepare_solver env a w sh = (Inr u, a1, w1, lg) \<Longrightarrow>
     bound a1 \<noteq> None \<and> filter is_model_transform lg = [] \<and>
     length (filter is_new lg) = (if cls a \<in> {MILPAdaptor, PercySDPAdaptor} then 2 else 1) \<and>
     (cls a = IBPAdaptor \<longrightarrow> new_model a1 \<noteq> None) \<and>
     (cls a \<noteq> IBPAdaptor \<longrightarrow> new_model a1 = new_model a) \<and>
     a1 = a\<lparr>new_model := new_model a1, bound := bound a1, prebound := prebound a1\<rparr>"
  by (auto simp: prepare_solver_def Let_def split: real_class.splits sum.splits prod.splits)

lemma lazy_init_counts:
  assumes "lazy_init env (cls a \<noteq> IBPAdaptor) a w input = (Inr u, a1, w1, lg)"
    and "new_model a = None"
  shows "new_model a1 \<noteq> None \<and> bound a1 \<noteq> None \<and>
         length (filter is_model_transform lg) = (if cls a = IBPAdaptor then 0 else 1) \<and>
         length (filter is_new lg) = (if cls a \<in> {MILPAdaptor, PercySDPAdaptor} then 2 else 1) \<and>
         a1 = a\<lparr>new_model := new_model a1, bound := bound a1, prebound := prebound a1\<rparr>"
proof (cases "cls a = IBPAdaptor")
  case True
  with assms have "prepare_solver env a w (in_shape_of input) = (Inr u, a1, w1, lg)"
    by (auto simp: lazy_init_def split: prod.splits sum.splits)
  from prepare_solver_counts [OF this] True show ?thesis by simp
next
  case False
  with assms obtain u0 a0 lg0 lg' where
    b: "build_new_model a input = (Inr u0, a0, lg0)" and
    p: "prepare_solver env a0 w (in_shape_of input) = (Inr u, a1, w1, lg')" and
    lg: "lg = lg0 @ lg'"
    by (auto simp: lazy_init_def split: prod.splits sum.splits)
  note b' = model_body_transform_counts [OF b]
  note p' = prepare_solver_counts [OF p]
  from b' have c: "cls a0 = cls a" and a0: "a0 = a\<lparr>new_model := new_model a0\<rparr>" by simp_all
  have "a1 = a0\<lparr>new_model := new_model a1, bound := bound a1, prebound := prebound a1\<rparr>"
    using p' by simp
  then have "a1 = (a\<lparr>new_model := new_model a0\<rparr>)
      \<lparr>new_model := new_model a1, bound := bound a1, prebound := prebound a1\<rparr>"
    using a0 by simp
  then have eq: "a1 = a\<lparr>new_model := new_model a1, bound := bound a1, prebound := prebound a1\<rparr>"
    by simp
  from b' p' c False lg eq show ?thesis by auto
qed

lemma tail_no_init:
  "class_tail env c a w x mr label = (r, w', lg) \<Longrightarrow>
     filter is_init_call lg = [] \<and> filter is_model_transform lg = [] \<and> filter is_new lg = []"
proof -
  assume "class_tail env c a w x mr label = (r, w', lg)"
  from class_tail_log [OF this] have n: "\<forall>e\<in>set lg. \<not> is_init_call e" by simp
  have "\<And>e. \<not> is_init_call e \<Longrightarrow> \<not> is_model_transform e \<and> \<not> is_new e"
    by (case_tac e) auto
  with n show ?thesis by (auto simp: filter_empty_conv)
qed

lemma real_verify_ready:
  assumes "real_verify env a w input label nt radius = (r, a', w', lg)"
    and "new_model a \<noteq> None"
  shows "a' = a \<and> filter is_init_call lg = []"
proof (cases "nt = ''inf''")
  case False
  with assms show ?thesis by (simp add: real_verify_unfold verify_common_not_inf)
next
  case True
  with assms have "verify_common env (cls a \<noteq> IBPAdaptor) (class_tail env (cls a)) a w input label
     ''inf'' radius = (r, a', w', lg)" by (simp add: real_verify_unfold)
  then show ?thesis
    using lazy_init_ready [OF assms(2), of env "cls a \<noteq> IBPAdaptor" w input]
    by (cases rule: verify_common_cases) (auto dest!: tail_no_init)
qed

lemma real_verify_first:
  assumes "real_verify env a w input label nt radius = (Inr v, a', w', lg)"
    and "new_model a = None"
  shows "new_model a' \<noteq> None \<and> bound a' \<noteq> None \<and>
         length (filter is_model_transform lg) = (if cls a = IBPAdaptor then 0 else 1) \<and>
         length (filter is_new lg) = (if cls a \<in> {MILPAdaptor, PercySDPAdaptor} then 2 else 1) \<and>
         a' = a\<lparr>new_model := new_model a', bound := bound a', prebound := prebound a'\<rparr>"
proof (cases "nt = ''inf''")
  case False
  with assms show ?thesis by (simp add: real_verify_unfold verify_common_not_inf)
next
  case True
  with assms have "verify_common env (cls a \<noteq> IBPAdaptor) (class_tail env (cls a)) a w input label
     ''inf'' radius = (Inr v, a', w', lg)" by (simp add: real_verify_unfold)
  then show ?thesis
  proof (cases rule: verify_common_cases)
    case (wrong u p)
    from lazy_init_counts [OF wrong(1) assms(2)] show ?thesis .
  next
    case (tail u p mr x w1 lg1 lg2)
    from lazy_init_counts [OF tail(1) assms(2)] tail_no_init [OF tail(6)] tail(7)
    show ?thesis by simp
  qed auto
qed

text \<open>
  C8. A \<^verbatim>\<open>verify\<close> call on an adaptor whose \<^verbatim>\<open>new_model\<close> is set makes no initialisation call
  and leaves every attribute of the adaptor as it is. A call on an adaptor whose
  \<^verbatim>\<open>new_model\<close> is \<^verbatim>\<open>None\<close>, if it returns a verdict, has transformed the model once (not at
  all for the interval-bound adaptor, which stores a module of the model instead) and
  built each engine once, has set \<^verbatim>\<open>new_model\<close> and \<^verbatim>\<open>bound\<close>, and has changed no attribute
  other than \<^verbatim>\<open>new_model\<close>, \<^verbatim>\<open>bound\<close> and \<^verbatim>\<open>prebound\<close>; every later call on the resulting
  adaptor skips the initialisation. (The engines' own state, which every call recomputes,
  is not an attribute of the adaptor; it is part of the world state.)
\<close>

theorem lazy_init_once:
  fixes env :: "('w, 'h) env"
  assumes "real_verify env a w input label nt radius = (r, a', w', lg)"
  shows
   "(new_model a \<noteq> None \<longrightarrow> a' = a \<and> filter is_init_call lg = []) \<and>
    (new_model a = None \<and> (\<exists>v. r = Inr v) \<longrightarrow>
       new_model a' \<noteq> None \<and> bound a' \<noteq> None \<and>
       length (filter is_model_transform lg) = (if cls a = IBPAdaptor then 0 else 1) \<and>
       length (filter is_new lg) = (if cls a \<in> {MILPAdaptor, PercySDPAdaptor} then 2 else 1) \<and>
       a' = a\<lparr>new_model := new_model a', bound := bound a', prebound := prebound a'\<rparr> \<and>
       (\<forall>w2 input2 label2 nt2 radius2 r2 a2 w2' lg2.
          real_verify env a' w2 input2 label2 nt2 radius2 = (r2, a2, w2', lg2) \<longrightarrow>
            a2 = a' \<and> filter is_init_call lg2 = []))"
proof (intro conjI impI)
  assume "new_model a \<noteq> None"
  from real_verify_ready [OF assms this]
  show "a' = a" "filter is_init_call lg = []" by simp_all
next
  assume h: "new_model a = None \<and> (\<exists>v. r = Inr v)"
  then obtain v where r: "r = Inr v" by blast
  from h have n: "new_model a = None" by simp
  note f = real_verify_first [OF assms [unfolded r] n]
  from f show "new_model a' \<noteq> None" "bound a' \<noteq> None"
    "length (filter is_model_transform lg) = (if cls a = IBPAdaptor then 0 else 1)"
    "length (filter is_new lg) = (if cls a \<in> {MILPAdaptor, PercySDPAdaptor} then 2 else 1)"
    "a' = a\<lparr>new_model := new_model a', bound := bound a', prebound := prebound a'\<rparr>"
    by simp_all
  from f have n': "new_model a' \<noteq> None" by simp
  show "\<forall>w2 input2 label2 nt2 radius2 r2 a2 w2' lg2.
          real_verify env a' w2 input2 label2 nt2 radius2 = (r2, a2, w2', lg2) \<longrightarrow>
            a2 = a' \<and> filter is_init_call lg2 = []"
  proof (intro allI impI)
    fix w2 input2 label2 nt2 radius2 r2 a2 w2' lg2
    assume "real_verify env a' w2 input2 label2 nt2 radius2 = (r2, a2, w2', lg2)"
    from real_verify_ready [OF this n'] show "a2 = a' \<and> filter is_init_call lg2 = []" .
  qed
qed

lemma demo_fastlin_again:
  "real_verify (mock_env 5 1)
     ((demo_real FastLinIBPAdaptor)
        \<lparr>new_model := Some (Transformed (Sequential [Layer 0]) [1, 1, 2]), bound := Some 1\<rparr>)
     2 demo_input 1 ''inf'' (1/10) =
    (Inr True,
     (demo_real FastLinIBPAdaptor)
       \<lparr>new_model := Some (Transformed (Sequential [Layer 0]) [1, 1, 2]), bound := Some 1\<rparr>,
     2,
     [CalculateBound 1 (Tensor1 [2, - 2]) (2 / 5),
      BoundVerify 1 1 0 True, BoundVerify 1 1 2 True])"
  by (simp add: run_defs demo_defs Let_def upto_0_2)

theorem lazy_init_once_witness:
  "new_model (fst (snd (real_verify (mock_env 5 1) (demo_real FastLinIBPAdaptor) 0 demo_input 1
      ''inf'' (1/10)))) \<noteq> None \<and>
   length (filter is_model_transform (snd (snd (snd
     (real_verify (mock_env 5 1) (demo_real FastLinIBPAdaptor) 0 demo_input 1 ''inf'' (1/10)))))) = 1 \<and>
   length (filter is_new (snd (snd (snd
     (real_verify (mock_env 5 1) (demo_real FastLinIBPAdaptor) 0 demo_input 1 ''inf'' (1/10)))))) = 1 \<and>
   filter is_init_call (snd (snd (snd
     (real_verify (mock_env 5 1)
        (fst (snd (real_verify (mock_env 5 1) (demo_real FastLinIBPAdaptor) 0 demo_input 1 ''inf''
           (1/10))))
        2 demo_input 1 ''inf'' (1/10))))) = []"
  using lazy_init_once [OF demo_fastlin_ok] demo_fastlin_ok demo_fastlin_again
  by (simp add: demo_real_def)

subsection \<open>Clamping of the pre-bounds\<close>

lemma clamp_prebound_Cons:
  "clamp_prebound (x # rest) = x # map (map (\<lambda>v. max v 0)) rest"
proof -
  have "[0..<length (x # rest)] = 0 # map Suc [0..<length rest]"
    using upt_conv_Cons [of 0 "Suc (length rest)"] map_Suc_upt [of 0 "length rest"] by simp
  then have "clamp_prebound (x # rest) =
      x # map (\<lambda>i. map (\<lambda>v. max v 0) (rest ! i)) [0..<length rest]"
    by (simp add: clamp_prebound_def comp_def)
  also have "map (\<lambda>i. map (\<lambda>v. max v 0) (rest ! i)) [0..<length rest] =
      map (map (\<lambda>v. max v 0)) (map (\<lambda>i. rest ! i) [0..<length rest])"
    by (simp add: comp_def)
  also have "map (\<lambda>i. rest ! i) [0..<length rest] = rest"
    by (rule map_nth)
  finally show ?thesis .
qed

lemma clamp_prebound_cases:
  "clamp_prebound xs = (case xs of [] \<Rightarrow> [] | x # rest \<Rightarrow> x # map (map (\<lambda>v. max v 0)) rest)"
  by (cases xs) (simp_all add: clamp_prebound_Cons, simp add: clamp_prebound_def)

lemma sdp_query_bounds:
  "sdp_query env bo bl bu label w i = (r, w1, evs) \<Longrightarrow>
     \<forall>e\<in>set evs. \<forall>q. run_bounds e = Some q \<longrightarrow> q = (bl, bu)"
  by (auto simp: sdp_query_def Let_def split: option.splits if_splits)

lemma sdp_loop_bounds:
  assumes "pairwise_loop (sdp_query env bo bl bu label) w label cs = (r, w', lg)"
  shows "\<forall>e\<in>set lg. \<forall>q. run_bounds e = Some q \<longrightarrow> q = (bl, bu)"
  by (rule loop_log_pred [OF _ assms]) (erule sdp_query_bounds)

lemma init_no_run: "\<forall>e\<in>set lg. is_init_call e \<Longrightarrow> \<forall>e\<in>set lg. run_bounds e = None"
proof (induction lg)
  case Nil
  then show ?case by simp
next
  case (Cons e lg)
  then show ?case by (cases e) auto
qed

text \<open>
  C10. Every run of the SDP that \<^verbatim>\<open>PercySDPAdaptor.verify\<close> starts receives the two
  pre-bound lists of the pre-bound engine, read after its \<^verbatim>\<open>calculate_bound\<close> call on the
  flattened preprocessed input, with every entry of every layer after the first replaced
  by its maximum with 0 and the first layer left as it is.
\<close>

theorem sdp_prebound_clamped:
  fixes env :: "('w, 'h) env"
  assumes "real_verify env a w input label nt radius = (r, a', w', lg)"
    and "cls a = PercySDPAdaptor"
  shows
   "(\<exists>w1 p x. \<forall>e\<in>set lg. \<forall>bl bu. run_bounds e = Some (bl, bu) \<longrightarrow>
        prebound a' = Some p \<and> input_preprocess a input = Inr x \<and>
        bl = clamp_prebound
               (bound_l env (calculate_bound env w1 p (Tensor1 (view_flat x)) (radius / coef a)) p) \<and>
        bu = clamp_prebound
               (bound_u env (calculate_bound env w1 p (Tensor1 (view_flat x)) (radius / coef a)) p)) \<and>
    (\<forall>xs. clamp_prebound xs =
        (case xs of [] \<Rightarrow> [] | x0 # rest \<Rightarrow> x0 # map (map (\<lambda>v. max v 0)) rest))"
proof (rule conjI)
  show "\<forall>xs. clamp_prebound xs =
        (case xs of [] \<Rightarrow> [] | x0 # rest \<Rightarrow> x0 # map (map (\<lambda>v. max v 0)) rest)"
    by (simp add: clamp_prebound_cases)
next
  let ?goal = "\<exists>w1 p x. \<forall>e\<in>set lg. \<forall>bl bu. run_bounds e = Some (bl, bu) \<longrightarrow>
        prebound a' = Some p \<and> input_preprocess a input = Inr x \<and>
        bl = clamp_prebound
               (bound_l env (calculate_bound env w1 p (Tensor1 (view_flat x)) (radius / coef a)) p) \<and>
        bu = clamp_prebound
               (bound_u env (calculate_bound env w1 p (Tensor1 (view_flat x)) (radius / coef a)) p)"
  have none: "\<forall>e\<in>set lg. run_bounds e = None \<Longrightarrow> ?goal" by simp
  show ?goal
  proof (cases "nt = ''inf''")
    case False
    with assms show ?thesis by (simp add: real_verify_unfold verify_common_not_inf)
  next
    case True
    with assms have "verify_common env True (sdp_tail env) a w input label
       ''inf'' radius = (r, a', w', lg)" by (simp add: real_verify_unfold class_tail_def)
    then show ?thesis
    proof (cases rule: verify_common_cases)
      case (tail u p0 mr x w1 lg1 lg2)
      from lazy_init_fields [OF tail(1)] have c: "coef a' = coef a" "model a' = model a"
        and i: "\<forall>e\<in>set lg1. is_init_call e" by auto
      have pre: "input_preprocess a input = Inr x" using tail(5) c(2) by (simp add: input_preprocess_def)
      have mr: "mr = radius / coef a" using py_div_Inr [OF tail(4)] c(1) by simp
      show ?thesis
      proof (cases "prebound a'")
        case None
        with tail(6) have "lg2 = []" by (simp add: sdp_tail_def)
        with init_no_run [OF i] tail(7) show ?thesis by (intro none) simp
      next
        case (Some p)
        let ?wq = "calculate_bound env w1 p (Tensor1 (view_flat x)) mr"
        from tail(6) Some obtain lg3 where
          loop: "pairwise_loop (sdp_query env (bound a') (clamp_prebound (bound_l env ?wq p))
                   (clamp_prebound (bound_u env ?wq p)) label) ?wq label
                   (py_range (get_num_classes env (dataset a'))) = (r, w', lg3)"
          and lg2: "lg2 = CalculateBound p (Tensor1 (view_flat x)) mr # lg3"
          by (auto simp: sdp_tail_def Let_def split: prod.splits)
        from sdp_loop_bounds [OF loop] init_no_run [OF i] tail(7) lg2
        have "\<forall>e\<in>set lg. \<forall>bl bu. run_bounds e = Some (bl, bu) \<longrightarrow>
            bl = clamp_prebound (bound_l env ?wq p) \<and> bu = clamp_prebound (bound_u env ?wq p)"
          by auto
        with Some pre mr show ?thesis by blast
      qed
    qed (auto dest!: lazy_init_fields init_no_run intro!: none)
  qed
qed

theorem sdp_prebound_clamped_witness:
  "clamp_prebound [[- 1, 2], [- 3, 4]] = [[- 1, 2], [0, 4]] \<and>
   clamp_prebound [[1, 2], [- 1, 5]] = [[1, 2], [0, 5]] \<and>
   map run_bounds (filter is_run (snd (snd (snd
     (real_verify (mock_env 5 (- 1)) (demo_real PercySDPAdaptor) 0 demo_input 1 ''inf'' (1/10)))))) =
     [Some ([[- 1, 2], [0, 4]], [[1, 2], [0, 5]]), Some ([[- 1, 2], [0, 4]], [[1, 2], [0, 5]])]"
  using sdp_prebound_clamped [OF demo_sdp_ok] demo_sdp_ok
  by (simp add: demo_real_def)

end
